theory Spec2Isabelle
  imports Complex_Main "HOL-Library.Word"
begin

section \<open>The upload protocol of Pan123Uploader (src/file\_uploader.py)\<close>

text \<open>
  The uploader talks to the remote service through \<open>requests.post\<close> and
  \<open>requests.put\<close>. Every request and the response it received is kept in a
  log, in order; the remote is any function from the log so far and the request to a
  response, so it may answer the same request differently over time (as the
  asynchronous result does). The file-manager class of src/get\_token.py repeats
  \<open>create_file\<close> to \<open>upload_file\<close> line by line from step 1 on.

  Python's integers are \<open>int\<close>. \<open>hashlib.md5\<close> is the standard library's:
  it is a parameter \<open>md5\<close> of the model, a hash object being the bytes it was
  fed (\<open>update\<close> twice is \<open>update\<close> of the concatenation, as hashlib
  documents). The quotient \<open>file_size / slice_size\<close> is a binary64 in Python;
  the model divides exactly, which is the same below \<open>2 ^ 53\<close> bytes.
  The local file is its content, readable and unchanged during the upload; printing and
  \<open>time.sleep\<close> are left out.
\<close>

subsection \<open>Data\<close>

type_synonym byte = "8 word"
type_synonym bytes = "byte list"

text \<open>The dict \<open>{'partNumber': n, 'etag': d}\<close>, local or from the remote.\<close>

datatype part = Part (partNumber: int) (etag: string)

text \<open>The requests, with their payload fields in the order of the source.\<close>

datatype call =
    is_CreateFile: CreateFile int string string int
  | is_GetUploadUrl: GetUploadUrl string int
  | is_PutChunk: PutChunk string bytes
  | is_ListUploadParts: ListUploadParts string
  | is_UploadComplete: UploadComplete string
  | is_UploadAsyncResult: UploadAsyncResult string

text \<open>
  The object under \<open>'data'\<close> of a JSON answer. A field read with
  \<open>.get(key, default)\<close> may be absent (\<open>None\<close>); a field read with
  \<open>[key]\<close> is there when the object has that shape.
\<close>

datatype payload =
    NoData
  | CreateData "string option" "int option" "bool option" "int option"
  | UrlData string
  | PartsData "part list"
  | CompleteData "int option" bool bool
  | AsyncData bool int

datatype envelope = Envelope (code: int) (message: string) (data: payload)

record response =
  status_code :: int
  text_of :: string
  json :: "envelope option"

type_synonym event = "call \<times> response"
type_synonym remote = "event list \<Rightarrow> call \<Rightarrow> response"

text \<open>
  Every \<open>raise Exception(f"...")\<close> of the source is one constructor, named
  after its site, with the values the message formats. \<open>KeyError\<close> stands for a
  JSON object without the field read from it, \<open>JSONDecodeError\<close> for a body
  that is not JSON.
\<close>

datatype error =
    CreateFileFailed string
  | GetUploadUrlFailed string
  | ChunkUploadFailed int string
  | ListPartsFailed string
  | PartVerifyFailed int
  | CompleteFailed string
  | AsyncResultFailed string
  | KeyError
  | JSONDecodeError
  | ZeroDivisionError

text \<open>
  What \<open>upload_file\<close> has done when it is observed: raised, returned a file id,
  or is still in its \<open>while True\<close> loop.
\<close>

datatype outcome = Raised error | Returned int | StillPolling

record state =
  log :: "event list"
  pos :: nat
  uploaded_chunks :: "part list"

definition init_state :: state where
  "init_state = \<lparr>log = [], pos = 0, uploaded_chunks = []\<rparr>"

subsection \<open>Hashing\<close>

text \<open>\<open>f.read(n)\<close> at position \<open>p\<close>: the bytes read and the new position.\<close>

definition f_read :: "int \<Rightarrow> bytes \<Rightarrow> nat \<Rightarrow> bytes \<times> nat" where
  "f_read n content p =
     (let rest = drop p content;
          chunk = (if n < 0 then rest else take (nat n) rest)
      in (chunk, p + length chunk))"

text \<open>
  \<open>for chunk in iter(lambda: f.read(4096), b''): md5_hash.update(chunk)\<close>,
  the hash object being the bytes fed so far.
\<close>

function md5_update_loop :: "bytes \<Rightarrow> nat \<Rightarrow> bytes \<Rightarrow> bytes" where
  "md5_update_loop content p md5_hash =
     (let (chunk, p') = f_read 4096 content p
      in if chunk = [] then md5_hash
         else md5_update_loop content p' (md5_hash @ chunk))"
  by pat_completeness auto
termination
  by (relation "measure (\<lambda>(content, p, h). length content - p)")
     (auto simp: f_read_def Let_def)

declare md5_update_loop.simps [simp del]

definition calculate_file_md5 :: "(bytes \<Rightarrow> string) \<Rightarrow> bytes \<Rightarrow> string" where
  "calculate_file_md5 md5 content = md5 (md5_update_loop content 0 [])"

definition calculate_chunk_md5 :: "(bytes \<Rightarrow> string) \<Rightarrow> bytes \<Rightarrow> string" where
  "calculate_chunk_md5 md5 chunk = md5 chunk"

subsection \<open>The remote calls\<close>

definition request :: "remote \<Rightarrow> call \<Rightarrow> state \<Rightarrow> response \<times> state" where
  "request env c st =
     (let r = env (log st) c in (r, st\<lparr>log := log st @ [(c, r)]\<rparr>))"

definition get_default :: "'a option \<Rightarrow> 'a \<Rightarrow> 'a" where
  "get_default v d = (case v of None \<Rightarrow> d | Some x \<Rightarrow> x)"

definition create_file ::
  "remote \<Rightarrow> (bytes \<Rightarrow> string) \<Rightarrow> string \<Rightarrow> bytes \<Rightarrow> int \<Rightarrow> state
     \<Rightarrow> (error + string \<times> int \<times> bool \<times> int) \<times> state" where
  "create_file env md5 filename content parent_id st =
     (let file_size = int (length content);
          file_md5 = calculate_file_md5 md5 content;
          (response, st') = request env (CreateFile parent_id filename file_md5 file_size) st
      in case json response of
           None \<Rightarrow> (Inl JSONDecodeError, st')
         | Some d \<Rightarrow>
             if code d = 0 then
               (case data d of
                  CreateData p f r s \<Rightarrow>
                    (Inr (get_default p '''', get_default f 0,
                          get_default r False, get_default s 0), st')
                | _ \<Rightarrow> (Inl KeyError, st'))
             else (Inl (CreateFileFailed (message d)), st'))"

definition get_upload_url ::
  "remote \<Rightarrow> string \<Rightarrow> int \<Rightarrow> state \<Rightarrow> (error + string) \<times> state" where
  "get_upload_url env preupload_id slice_no st =
     (let (response, st') = request env (GetUploadUrl preupload_id slice_no) st
      in case json response of
           None \<Rightarrow> (Inl JSONDecodeError, st')
         | Some d \<Rightarrow>
             if code d = 0 then
               (case data d of
                  UrlData u \<Rightarrow> (Inr u, st')
                | _ \<Rightarrow> (Inl KeyError, st'))
             else (Inl (GetUploadUrlFailed (message d)), st'))"

definition list_uploaded_parts ::
  "remote \<Rightarrow> string \<Rightarrow> state \<Rightarrow> (error + part list) \<times> state" where
  "list_uploaded_parts env preupload_id st =
     (let (response, st') = request env (ListUploadParts preupload_id) st
      in case json response of
           None \<Rightarrow> (Inl JSONDecodeError, st')
         | Some d \<Rightarrow>
             if code d = 0 then
               (case data d of
                  PartsData ps \<Rightarrow> (Inr ps, st')
                | _ \<Rightarrow> (Inl KeyError, st'))
             else (Inl (ListPartsFailed (message d)), st'))"

definition complete_upload ::
  "remote \<Rightarrow> string \<Rightarrow> state \<Rightarrow> (error + int \<times> bool \<times> bool) \<times> state" where
  "complete_upload env preupload_id st =
     (let (response, st') = request env (UploadComplete preupload_id) st
      in case json response of
           None \<Rightarrow> (Inl JSONDecodeError, st')
         | Some d \<Rightarrow>
             if code d = 0 then
               (case data d of
                  CompleteData f a c \<Rightarrow> (Inr (get_default f 0, a, c), st')
                | _ \<Rightarrow> (Inl KeyError, st'))
             else (Inl (CompleteFailed (message d)), st'))"

definition check_async_result ::
  "remote \<Rightarrow> string \<Rightarrow> state \<Rightarrow> (error + bool \<times> int) \<times> state" where
  "check_async_result env preupload_id st =
     (let (response, st') = request env (UploadAsyncResult preupload_id) st
      in case json response of
           None \<Rightarrow> (Inl JSONDecodeError, st')
         | Some d \<Rightarrow>
             if code d = 0 then
               (case data d of
                  AsyncData c f \<Rightarrow> (Inr (c, f), st')
                | _ \<Rightarrow> (Inl KeyError, st'))
             else (Inl (AsyncResultFailed (message d)), st'))"

subsection \<open>\<open>upload_file\<close>\<close>

text \<open>\<open>os.path.basename\<close>: what follows the last slash.\<close>

definition basename :: "string \<Rightarrow> string" where
  "basename p = rev (takeWhile (\<lambda>c. c \<noteq> CHR ''/'') (rev p))"

text \<open>\<open>range(n)\<close>, empty when \<open>n \<le> 0\<close>.\<close>

definition range_py :: "int \<Rightarrow> int list" where
  "range_py n = map int [0..<nat n]"

text \<open>
  Step 2, the body of \<open>for chunk_index in range(total_chunks)\<close>: read, ask for
  the address, put, check the status, record the digest.
\<close>

fun upload_chunks ::
  "remote \<Rightarrow> (bytes \<Rightarrow> string) \<Rightarrow> bytes \<Rightarrow> string \<Rightarrow> int \<Rightarrow> int list \<Rightarrow> state
     \<Rightarrow> error option \<times> state" where
  "upload_chunks env md5 content preupload_id slice_size [] st = (None, st)"
| "upload_chunks env md5 content preupload_id slice_size (chunk_index # rest) st =
     (let (chunk, p') = f_read slice_size content (pos st);
          st1 = st\<lparr>pos := p'\<rparr>;
          slice_no = chunk_index + 1
      in case get_upload_url env preupload_id slice_no st1 of
           (Inl e, st2) \<Rightarrow> (Some e, st2)
         | (Inr upload_url, st2) \<Rightarrow>
             (let (response, st3) = request env (PutChunk upload_url chunk) st2
              in if status_code response \<noteq> 200
                 then (Some (ChunkUploadFailed slice_no (text_of response)), st3)
                 else upload_chunks env md5 content preupload_id slice_size rest
                        (st3\<lparr>uploaded_chunks := uploaded_chunks st3 @
                               [Part slice_no (calculate_chunk_md5 md5 chunk)]\<rparr>)))"

text \<open>
  Step 3, \<open>for local_part in uploaded_chunks\<close>: \<open>next(..., None)\<close> takes the
  first remote part with the number; none, or another etag, raises.
\<close>

fun verify_parts :: "part list \<Rightarrow> part list \<Rightarrow> error option" where
  "verify_parts server_parts [] = None"
| "verify_parts server_parts (local_part # rest) =
     (case find (\<lambda>p. partNumber p = partNumber local_part) server_parts of
        None \<Rightarrow> Some (PartVerifyFailed (partNumber local_part))
      | Some server_part \<Rightarrow>
          if etag server_part \<noteq> etag local_part
          then Some (PartVerifyFailed (partNumber local_part))
          else verify_parts server_parts rest)"

text \<open>
  Step 5, \<open>while True\<close>: the loop has no bound, so the model counts the polls it
  follows; \<open>StillPolling\<close> is the loop not left after that many.
\<close>

fun wait_async :: "nat \<Rightarrow> remote \<Rightarrow> string \<Rightarrow> state \<Rightarrow> outcome \<times> state" where
  "wait_async 0 env preupload_id st = (StillPolling, st)"
| "wait_async (Suc fuel) env preupload_id st =
     (case check_async_result env preupload_id st of
        (Inl e, st') \<Rightarrow> (Raised e, st')
      | (Inr (completed, final_file_id), st') \<Rightarrow>
          if completed then (Returned final_file_id, st')
          else wait_async fuel env preupload_id st')"

definition upload_file ::
  "nat \<Rightarrow> remote \<Rightarrow> (bytes \<Rightarrow> string) \<Rightarrow> string \<Rightarrow> bytes \<Rightarrow> int \<Rightarrow> outcome \<times> state" where
  "upload_file fuel env md5 file_path content parent_id =
     (let filename = basename file_path
      in case create_file env md5 filename content parent_id init_state of
           (Inl e, st1) \<Rightarrow> (Raised e, st1)
         | (Inr (preupload_id, file_id, is_reuse, slice_size), st1) \<Rightarrow>
             if is_reuse then (Returned file_id, st1)
             else
               (let file_size = int (length content)
                in if slice_size = 0 then (Raised ZeroDivisionError, st1)
                   else
                     (let total_chunks = \<lceil>real_of_int file_size / real_of_int slice_size\<rceil>
                      in case upload_chunks env md5 content preupload_id slice_size
                                (range_py total_chunks)
                                (st1\<lparr>pos := 0, uploaded_chunks := []\<rparr>) of
                           (Some e, st2) \<Rightarrow> (Raised e, st2)
                         | (None, st2) \<Rightarrow>
                             (case (if file_size > slice_size
                                    then (case list_uploaded_parts env preupload_id st2 of
                                            (Inl e, st3) \<Rightarrow> (Some e, st3)
                                          | (Inr server_parts, st3) \<Rightarrow>
                                              (verify_parts server_parts (uploaded_chunks st3), st3))
                                    else (None, st2)) of
                                (Some e, st3) \<Rightarrow> (Raised e, st3)
                              | (None, st3) \<Rightarrow>
                                  (case complete_upload env preupload_id st3 of
                                     (Inl e, st4) \<Rightarrow> (Raised e, st4)
                                   | (Inr (file_id', is_async, is_completed), st4) \<Rightarrow>
                                       if is_async then wait_async fuel env preupload_id st4
                                       else (Returned file_id', st4))))))"

subsection \<open>Reading the log\<close>

fun put_data :: "event list \<Rightarrow> bytes list" where
  "put_data [] = []"
| "put_data ((PutChunk u d, r) # evs) = d # put_data evs"
| "put_data (ev # evs) = put_data evs"

fun put_statuses :: "event list \<Rightarrow> int list" where
  "put_statuses [] = []"
| "put_statuses ((PutChunk u d, r) # evs) = status_code r # put_statuses evs"
| "put_statuses (ev # evs) = put_statuses evs"

fun slice_nos :: "event list \<Rightarrow> int list" where
  "slice_nos [] = []"
| "slice_nos ((GetUploadUrl p n, r) # evs) = n # slice_nos evs"
| "slice_nos (ev # evs) = slice_nos evs"

fun async_results :: "event list \<Rightarrow> response list" where
  "async_results [] = []"
| "async_results ((UploadAsyncResult p, r) # evs) = r # async_results evs"
| "async_results (ev # evs) = async_results evs"

text \<open>
  A get-upload-url answered with an address, a put answered with status 200: the two
  answers that let the loop of step 2 go on.
\<close>

fun accepted :: "event \<Rightarrow> bool" where
  "accepted (PutChunk u d, r) = (status_code r = 200)"
| "accepted (GetUploadUrl p n, r) =
     (case json r of
        Some (Envelope c m (UrlData u)) \<Rightarrow> c = 0
      | _ \<Rightarrow> False)"
| "accepted (c, r) = True"

text \<open>The create-file request of an upload, and the log an upload leaves.\<close>

abbreviation create_call :: "(bytes \<Rightarrow> string) \<Rightarrow> string \<Rightarrow> bytes \<Rightarrow> int \<Rightarrow> call" where
  "create_call md5 file_path content parent_id \<equiv>
     CreateFile parent_id (basename file_path) (calculate_file_md5 md5 content)
       (int (length content))"

abbreviation upload_log ::
  "nat \<Rightarrow> remote \<Rightarrow> (bytes \<Rightarrow> string) \<Rightarrow> string \<Rightarrow> bytes \<Rightarrow> int \<Rightarrow> event list" where
  "upload_log fuel env md5 file_path content parent_id \<equiv>
     log (snd (upload_file fuel env md5 file_path content parent_id))"



subsection \<open>A remote for the examples\<close>

text \<open>
  The examples run the upload against a remote that answers every request with
  success: it hands out the given create-file data, accepts every chunk and lists the
  parts it received with their digests. \<open>sample_md5\<close> stands for the digest
  there.
\<close>

definition ok_json :: "payload \<Rightarrow> response" where
  "ok_json d = \<lparr>status_code = 200, text_of = [], json = Some (Envelope 0 ''ok'' d)\<rparr>"

definition http_status :: "int \<Rightarrow> response" where
  "http_status c = \<lparr>status_code = c, text_of = [], json = None\<rparr>"

definition sample_md5 :: "bytes \<Rightarrow> string" where
  "sample_md5 bs = map (\<lambda>b. if b = 0 then CHR ''0'' else CHR ''1'') bs"

definition friendly_remote :: "(bytes \<Rightarrow> string) \<Rightarrow> payload \<Rightarrow> remote" where
  "friendly_remote md5 create_data lg c =
     (case c of
        CreateFile parent_id filename file_md5 file_size \<Rightarrow> ok_json create_data
      | GetUploadUrl p n \<Rightarrow> ok_json (UrlData ''url'')
      | PutChunk u d \<Rightarrow> http_status 200
      | ListUploadParts p \<Rightarrow>
          ok_json (PartsData (map2 Part (slice_nos lg) (map md5 (put_data lg))))
      | UploadComplete p \<Rightarrow> ok_json (CompleteData (Some 7) False True)
      | UploadAsyncResult p \<Rightarrow> ok_json (AsyncData True 7))"


text \<open>The remote \<open>env\<close>, but answering the \<open>k\<close>-th put with status 500.\<close>

definition refusing_put :: "nat \<Rightarrow> remote \<Rightarrow> remote" where
  "refusing_put k env lg c =
     (case c of
        PutChunk u d \<Rightarrow> if Suc (length (put_data lg)) = k then http_status 500 else env lg c
      | _ \<Rightarrow> env lg c)"

text \<open>The remote \<open>env\<close>, but listing the given parts.\<close>

definition listing_parts :: "part list \<Rightarrow> remote \<Rightarrow> remote" where
  "listing_parts ps env lg c =
     (case c of
        ListUploadParts p \<Rightarrow> ok_json (PartsData ps)
      | _ \<Rightarrow> env lg c)"

text \<open>
  The remote \<open>env\<close>, but deferring the completion: complete-upload answers
  \<open>async = true, completed = false\<close>, and the \<open>n\<close>-th async-result request
  is the first answered \<open>completed = true\<close>, with the given file id.
\<close>

definition completing_async :: "nat \<Rightarrow> int \<Rightarrow> remote \<Rightarrow> remote" where
  "completing_async n file_id env lg c =
     (case c of
        UploadComplete p \<Rightarrow> ok_json (CompleteData None True False)
      | UploadAsyncResult p \<Rightarrow>
          if Suc (length (async_results lg)) < n then ok_json (AsyncData False 0)
          else ok_json (AsyncData True file_id)
      | _ \<Rightarrow> env lg c)"

section \<open>Lemmas\<close>

subsection \<open>Hashing in windows\<close>

lemma md5_update_loop_eq: "md5_update_loop content p h = h @ drop p content"
proof (induction content p h rule: md5_update_loop.induct)
  case (1 content p h)
  show ?case
  proof (cases "take 4096 (drop p content) = []")
    case True
    then have "drop p content = []" by simp
    with True show ?thesis
      by (subst md5_update_loop.simps) (simp add: f_read_def Let_def)
  next
    case False
    let ?c = "take 4096 (drop p content)"
    have "md5_update_loop content p h = md5_update_loop content (p + length ?c) (h @ ?c)"
      using False by (subst md5_update_loop.simps) (simp add: f_read_def Let_def)
    also have "\<dots> = (h @ ?c) @ drop (p + length ?c) content"
      using False by (intro "1.IH") (simp_all add: f_read_def Let_def)
    also have "drop (p + length ?c) content = drop 4096 (drop p content)"
      by (cases "4096 \<le> length content - p") (simp_all add: add.commute min_def)
    finally show ?thesis
      using append_take_drop_id [of 4096 "drop p content"] by simp
  qed
qed

lemma calculate_file_md5_eq: "calculate_file_md5 md5 content = md5 content"
  by (simp add: calculate_file_md5_def md5_update_loop_eq)

subsection \<open>The log\<close>


lemma put_data_append: "put_data (xs @ ys) = put_data xs @ put_data ys"
  by (induction xs rule: put_data.induct) simp_all

lemma put_statuses_append: "put_statuses (xs @ ys) = put_statuses xs @ put_statuses ys"
  by (induction xs rule: put_statuses.induct) simp_all


lemma async_results_append: "async_results (xs @ ys) = async_results xs @ async_results ys"
  by (induction xs rule: async_results.induct) simp_all

lemma get_upload_url_step:
  assumes "get_upload_url env pid n st = (res, st')"
  shows "st' = st\<lparr>log := log st @ [(GetUploadUrl pid n, env (log st) (GetUploadUrl pid n))]\<rparr>"
    and "(\<exists>u. res = Inr u) \<longleftrightarrow> accepted (GetUploadUrl pid n, env (log st) (GetUploadUrl pid n))"
  using assms
  by (auto simp: get_upload_url_def request_def Let_def
           split: option.splits if_splits payload.splits envelope.splits)

lemma list_uploaded_parts_step:
  assumes "list_uploaded_parts env pid st = (res, st')"
  shows "st' = st\<lparr>log := log st @ [(ListUploadParts pid, env (log st) (ListUploadParts pid))]\<rparr>"
  using assms
  by (auto simp: list_uploaded_parts_def request_def Let_def
           split: option.splits if_splits payload.splits)

lemma list_uploaded_parts_Inr:
  assumes "list_uploaded_parts env pid st = (Inr ps, st')"
  shows "\<exists>msg. json (env (log st) (ListUploadParts pid)) = Some (Envelope 0 msg (PartsData ps))"
  using assms
  by (cases "the (json (env (log st) (ListUploadParts pid)))")
     (auto simp: list_uploaded_parts_def request_def Let_def
           split: option.splits if_splits payload.splits)

lemma complete_upload_step:
  assumes "complete_upload env pid st = (res, st')"
  shows "st' = st\<lparr>log := log st @ [(UploadComplete pid, env (log st) (UploadComplete pid))]\<rparr>"
  using assms
  by (auto simp: complete_upload_def request_def Let_def
           split: option.splits if_splits payload.splits)

lemma complete_upload_Inr:
  assumes "complete_upload env pid st = (Inr (fid, a, c), st')"
  shows "\<exists>msg f. json (env (log st) (UploadComplete pid)) = Some (Envelope 0 msg (CompleteData f a c))
            \<and> fid = get_default f 0"
  using assms
  by (cases "the (json (env (log st) (UploadComplete pid)))")
     (auto simp: complete_upload_def request_def Let_def
           split: option.splits if_splits payload.splits)

lemma check_async_result_step:
  assumes "check_async_result env pid st = (res, st')"
  shows "st' = st\<lparr>log := log st @ [(UploadAsyncResult pid, env (log st) (UploadAsyncResult pid))]\<rparr>"
  using assms
  by (auto simp: check_async_result_def request_def Let_def
           split: option.splits if_splits payload.splits)

lemma check_async_result_Inr:
  assumes "check_async_result env pid st = (Inr (c, fid), st')"
  shows "\<exists>msg. json (env (log st) (UploadAsyncResult pid)) = Some (Envelope 0 msg (AsyncData c fid))"
  using assms
  by (cases "the (json (env (log st) (UploadAsyncResult pid)))")
     (auto simp: check_async_result_def request_def Let_def
           split: option.splits if_splits payload.splits)

lemma create_file_step:
  assumes "create_file env md5 fn content parent st = (res, st')"
  shows "st' = st\<lparr>log := log st @
           [(CreateFile parent fn (calculate_file_md5 md5 content) (int (length content)),
             env (log st) (CreateFile parent fn (calculate_file_md5 md5 content) (int (length content))))]\<rparr>"
  using assms
  by (auto simp: create_file_def request_def Let_def
           split: option.splits if_splits payload.splits)

lemma create_file_Inr:
  assumes "create_file env md5 fn content parent st = (Inr (pid, fid, reuse, K), st')"
  shows "\<exists>msg p f r s.
           json (env (log st) (CreateFile parent fn (calculate_file_md5 md5 content) (int (length content))))
             = Some (Envelope 0 msg (CreateData p f r s))
           \<and> pid = get_default p '''' \<and> fid = get_default f 0
           \<and> reuse = get_default r False \<and> K = get_default s 0"
  using assms
  by (cases "the (json (env (log st) (CreateFile parent fn (calculate_file_md5 md5 content) (int (length content)))))")
     (auto simp: create_file_def request_def Let_def
           split: option.splits if_splits payload.splits)


lemma create_file_success:
  assumes "json (env [] (CreateFile parent_id fn (calculate_file_md5 md5 content) (int (length content))))
             = Some (Envelope 0 msg (CreateData p f r s))"
  shows "create_file env md5 fn content parent_id init_state =
           (Inr (get_default p '''', get_default f 0, get_default r False, get_default s 0),
            init_state\<lparr>log := [(CreateFile parent_id fn (calculate_file_md5 md5 content) (int (length content)),
               env [] (CreateFile parent_id fn (calculate_file_md5 md5 content) (int (length content))))]\<rparr>)"
  using assms by (simp add: create_file_def request_def Let_def init_state_def)




lemma upload_chunks_Cons_cases:
  fixes content :: bytes and K :: int and st :: state and env :: remote
    and pid :: string and i :: int
  defines chunk: "chunk \<equiv> fst (f_read K content (pos st))"
      and p': "p' \<equiv> snd (f_read K content (pos st))"
  defines c1: "c1 \<equiv> GetUploadUrl pid (i + 1)"
  defines r1: "r1 \<equiv> env (log st) c1"
  assumes run: "upload_chunks env md5 content pid K (i # rest) st = (r, st')"
  obtains
    (url_refused) e where "r = Some e" "\<not> accepted (c1, r1)"
        "st' = st\<lparr>pos := p', log := log st @ [(c1, r1)]\<rparr>"
        "\<And>k t. e \<noteq> ChunkUploadFailed k t"
  | (put_refused) url resp where "r = Some (ChunkUploadFailed (i + 1) (text_of resp))"
        "accepted (c1, r1)" "status_code resp \<noteq> 200"
        "st' = st\<lparr>pos := p', log := log st @ [(c1, r1), (PutChunk url chunk, resp)]\<rparr>"
        "resp = env (log st @ [(c1, r1)]) (PutChunk url chunk)"
  | (sent) url resp where "accepted (c1, r1)" "status_code resp = 200"
        "upload_chunks env md5 content pid K rest
           (st\<lparr>pos := p', log := log st @ [(c1, r1), (PutChunk url chunk, resp)],
               uploaded_chunks := uploaded_chunks st @ [Part (i + 1) (md5 chunk)]\<rparr>) = (r, st')"
        "resp = env (log st @ [(c1, r1)]) (PutChunk url chunk)"
proof -
  have rd: "f_read K content (pos st) = (chunk, p')"
    by (simp add: chunk p')
  obtain res st2 where gu: "get_upload_url env pid (i + 1) (st\<lparr>pos := p'\<rparr>) = (res, st2)"
    by (cases "get_upload_url env pid (i + 1) (st\<lparr>pos := p'\<rparr>)")
  have st2: "st2 = st\<lparr>pos := p', log := log st @ [(c1, r1)]\<rparr>"
    using get_upload_url_step(1) [OF gu] by (simp add: c1 r1)
  have acc: "(\<exists>u. res = Inr u) \<longleftrightarrow> accepted (c1, r1)"
    using get_upload_url_step(2) [OF gu] by (simp add: c1 r1)
  show thesis
  proof (cases res)
    case (Inl e)
    have "e \<noteq> ChunkUploadFailed k t" for k t
      using gu Inl
      by (auto simp: get_upload_url_def request_def Let_def
               split: option.splits if_splits payload.splits)
    moreover have "r = Some e" "st' = st2"
      using run rd gu Inl by simp_all
    ultimately show thesis
      using acc Inl st2 url_refused by auto
  next
    case (Inr url)
    define r2 where "r2 = env (log st2) (PutChunk url chunk)"
    show thesis
    proof (cases "status_code r2 = 200")
      case False
      have "r = Some (ChunkUploadFailed (i + 1) (text_of r2))"
           "st' = st2\<lparr>log := log st2 @ [(PutChunk url chunk, r2)]\<rparr>"
        using run rd gu Inr False by (simp_all add: request_def Let_def r2_def)
      then show thesis
        using acc Inr False st2 r2_def put_refused [where url = url and resp = r2] by simp
    next
      case True
      have "upload_chunks env md5 content pid K rest
              (st2\<lparr>log := log st2 @ [(PutChunk url chunk, r2)],
                   uploaded_chunks := uploaded_chunks st2 @ [Part (i + 1) (md5 chunk)]\<rparr>) = (r, st')"
        using run rd gu Inr True
        by (simp add: request_def Let_def r2_def calculate_chunk_md5_def)
      then show thesis
        using acc Inr True st2 r2_def sent [where url = url and resp = r2] by simp
    qed
  qed
qed

lemma upload_chunks_log:
  "upload_chunks env md5 content pid K idxs st = (r, st') \<Longrightarrow>
     \<exists>evs. log st' = log st @ evs \<and> (\<forall>e\<in>set evs. is_GetUploadUrl (fst e) \<or> is_PutChunk (fst e))"
proof (induction idxs arbitrary: st)
  case Nil
  then show ?case by simp
next
  case (Cons i rest)
  from Cons.prems show ?case
  proof (cases rule: upload_chunks_Cons_cases)
    case (sent url r2)
    from Cons.IH [OF sent(3)] show ?thesis by auto
  qed auto
qed



lemma upload_chunks_Some:
  assumes "upload_chunks env md5 content pid K idxs st = (Some e, st')"
  shows "\<exists>m<length idxs.
           map partNumber (uploaded_chunks st') =
             map partNumber (uploaded_chunks st) @ map (\<lambda>i. i + 1) (take m idxs)
         \<and> ((\<exists>t c. e = ChunkUploadFailed (idxs ! m + 1) t \<and> c \<noteq> 200
                 \<and> put_statuses (log st') = put_statuses (log st) @ replicate m 200 @ [c])
              \<or> ((\<forall>k t. e \<noteq> ChunkUploadFailed k t)
                 \<and> put_statuses (log st') = put_statuses (log st) @ replicate m 200))"
  using assms
proof (induction idxs arbitrary: st)
  case Nil
  then show ?case by simp
next
  case (Cons i rest)
  from Cons.prems show ?case
  proof (cases rule: upload_chunks_Cons_cases)
    case (url_refused e')
    then show ?thesis
      by (intro exI [of _ 0]) (simp add: put_statuses_append)
  next
    case (put_refused url resp)
    then show ?thesis
      by (intro exI [of _ 0]) (simp add: put_statuses_append)
  next
    case (sent url resp)
    from Cons.IH [OF sent(3)] obtain m where m: "m < length rest"
      "map partNumber (uploaded_chunks st') =
         map partNumber (uploaded_chunks st) @ (i + 1) # map (\<lambda>i. i + 1) (take m rest)"
      "(\<exists>t c. e = ChunkUploadFailed (rest ! m + 1) t \<and> c \<noteq> 200
           \<and> put_statuses (log st') = put_statuses (log st) @ 200 # replicate m 200 @ [c])
       \<or> ((\<forall>k t. e \<noteq> ChunkUploadFailed k t)
           \<and> put_statuses (log st') = put_statuses (log st) @ 200 # replicate m 200)"
      using sent(2) by (auto simp: put_statuses_append)
    then show ?thesis
      by (intro exI [of _ "Suc m"]) simp
  qed
qed

lemma wait_async_log:
  "wait_async fuel env pid st = (out, st') \<Longrightarrow>
     \<exists>evs. log st' = log st @ evs \<and> (\<forall>e\<in>set evs. fst e = UploadAsyncResult pid)
        \<and> pos st' = pos st \<and> uploaded_chunks st' = uploaded_chunks st"
proof (induction fuel arbitrary: st)
  case 0
  then show ?case by simp
next
  case (Suc fuel)
  obtain res st1 where ca: "check_async_result env pid st = (res, st1)"
    by (cases "check_async_result env pid st")
  note st1 = check_async_result_step [OF ca]
  show ?case
  proof (cases "\<exists>f. res = Inr (False, f)")
    case True
    with Suc.prems ca have "wait_async fuel env pid st1 = (out, st')"
      by auto
    from Suc.IH [OF this] st1 show ?thesis by auto
  next
    case False
    with Suc.prems ca have "st' = st1"
      by (auto split: sum.splits if_splits)
    with st1 show ?thesis by simp
  qed
qed

lemma wait_async_Returned:
  "wait_async fuel env pid st = (Returned fid, st') \<Longrightarrow>
     \<exists>rs r msg. async_results (log st') = async_results (log st) @ rs @ [r]
        \<and> json r = Some (Envelope 0 msg (AsyncData True fid))
        \<and> (\<forall>r'\<in>set rs. \<exists>msg' f. json r' = Some (Envelope 0 msg' (AsyncData False f)))"
proof (induction fuel arbitrary: st)
  case 0
  then show ?case by simp
next
  case (Suc fuel)
  obtain res st1 where ca: "check_async_result env pid st = (res, st1)"
    by (cases "check_async_result env pid st")
  note st1 = check_async_result_step [OF ca]
  let ?r = "env (log st) (UploadAsyncResult pid)"
  from Suc.prems ca obtain c f where res: "res = Inr (c, f)"
    by (cases res) auto
  from check_async_result_Inr [OF ca [unfolded res]]
  obtain msg where msg: "json ?r = Some (Envelope 0 msg (AsyncData c f))" by blast
  show ?case
  proof (cases c)
    case True
    with Suc.prems ca res have "st' = st1" "f = fid" by simp_all
    with st1 msg True show ?thesis
      by (intro exI [of _ "[]"] exI [of _ ?r] exI [of _ msg]) (simp add: async_results_append)
  next
    case False
    with Suc.prems ca res have "wait_async fuel env pid st1 = (Returned fid, st')"
      by simp
    from Suc.IH [OF this] obtain rs r msg' where
      "async_results (log st') = async_results (log st1) @ rs @ [r]"
      "json r = Some (Envelope 0 msg' (AsyncData True fid))"
      "\<forall>r'\<in>set rs. \<exists>msg' f. json r' = Some (Envelope 0 msg' (AsyncData False f))"
      by blast
    with st1 msg False show ?thesis
      by (intro exI [of _ "?r # rs"] exI [of _ r] exI [of _ msg'])
         (simp add: async_results_append)
  qed
qed

subsection \<open>The paths through \<open>upload_file\<close>\<close>


lemma upload_file_cases:
  fixes content :: bytes and env :: remote
  defines "S \<equiv> int (length content)"
  assumes run: "upload_file fuel env md5 file_path content parent_id = (out, st)"
  obtains
    (create_failed) e where
      "create_file env md5 (basename file_path) content parent_id init_state = (Inl e, st)"
      "out = Raised e"
  | (reused) pid fid K where
      "create_file env md5 (basename file_path) content parent_id init_state = (Inr (pid, fid, True, K), st)"
      "out = Returned fid"
  | (zero_division) pid fid where
      "create_file env md5 (basename file_path) content parent_id init_state = (Inr (pid, fid, False, 0), st)"
      "out = Raised ZeroDivisionError"
  | (chunk_failed) pid fid K st1 e where
      "create_file env md5 (basename file_path) content parent_id init_state = (Inr (pid, fid, False, K), st1)"
      "K \<noteq> 0"
      "upload_chunks env md5 content pid K (range_py \<lceil>real_of_int S / real_of_int K\<rceil>)
         (st1\<lparr>pos := 0, uploaded_chunks := []\<rparr>) = (Some e, st)"
      "out = Raised e"
  | (list_failed) pid fid K st1 st2 e where
      "create_file env md5 (basename file_path) content parent_id init_state = (Inr (pid, fid, False, K), st1)"
      "K \<noteq> 0"
      "upload_chunks env md5 content pid K (range_py \<lceil>real_of_int S / real_of_int K\<rceil>)
         (st1\<lparr>pos := 0, uploaded_chunks := []\<rparr>) = (None, st2)"
      "K < S"
      "list_uploaded_parts env pid st2 = (Inl e, st)"
      "out = Raised e"
  | (verify_failed) pid fid K st1 st2 server_parts e where
      "create_file env md5 (basename file_path) content parent_id init_state = (Inr (pid, fid, False, K), st1)"
      "K \<noteq> 0"
      "upload_chunks env md5 content pid K (range_py \<lceil>real_of_int S / real_of_int K\<rceil>)
         (st1\<lparr>pos := 0, uploaded_chunks := []\<rparr>) = (None, st2)"
      "K < S"
      "list_uploaded_parts env pid st2 = (Inr server_parts, st)"
      "verify_parts server_parts (uploaded_chunks st) = Some e"
      "out = Raised e"
  | (completing) pid fid K st1 st2 st3 res st4 where
      "create_file env md5 (basename file_path) content parent_id init_state = (Inr (pid, fid, False, K), st1)"
      "K \<noteq> 0"
      "upload_chunks env md5 content pid K (range_py \<lceil>real_of_int S / real_of_int K\<rceil>)
         (st1\<lparr>pos := 0, uploaded_chunks := []\<rparr>) = (None, st2)"
      "if K < S
       then \<exists>server_parts. list_uploaded_parts env pid st2 = (Inr server_parts, st3)
              \<and> verify_parts server_parts (uploaded_chunks st3) = None
       else st3 = st2"
      "complete_upload env pid st3 = (res, st4)"
      "case res of
         Inl e \<Rightarrow> out = Raised e \<and> st = st4
       | Inr (file_id, is_async, is_completed) \<Rightarrow>
           if is_async then wait_async fuel env pid st4 = (out, st)
           else out = Returned file_id \<and> st = st4"
proof -
  obtain res1 st1 where cf:
    "create_file env md5 (basename file_path) content parent_id init_state = (res1, st1)"
    by (cases "create_file env md5 (basename file_path) content parent_id init_state")
  show thesis
  proof (cases res1)
    case (Inl e)
    with run cf create_failed show thesis
      by (simp add: upload_file_def)
  next
    case (Inr quad)
    obtain pid fid reuse K where quad: "quad = (pid, fid, reuse, K)"
      by (cases quad)
    show thesis
    proof (cases "reuse \<or> K = 0")
      case True
      show thesis
      proof (cases reuse)
        case True
        with run cf Inr quad have "out = Returned fid" "st1 = st"
          by (simp_all add: upload_file_def)
        with cf Inr quad True reused show thesis by simp
      next
        case False
        with \<open>reuse \<or> K = 0\<close> have "K = 0" by simp
        with run cf Inr quad False have "out = Raised ZeroDivisionError" "st1 = st"
          by (simp_all add: upload_file_def Let_def)
        with cf Inr quad False \<open>K = 0\<close> zero_division show thesis by simp
      qed
    next
      case False
      then have nr: "\<not> reuse" "K \<noteq> 0" by simp_all
      obtain r2 st2 where uc:
        "upload_chunks env md5 content pid K (range_py \<lceil>real_of_int S / real_of_int K\<rceil>)
           (st1\<lparr>pos := 0, uploaded_chunks := []\<rparr>) = (r2, st2)"
        by (cases "upload_chunks env md5 content pid K (range_py \<lceil>real_of_int S / real_of_int K\<rceil>)
           (st1\<lparr>pos := 0, uploaded_chunks := []\<rparr>)")
      show thesis
      proof (cases r2)
        case (Some e)
        with run cf Inr quad nr uc chunk_failed [of pid fid K st1 e] show thesis
          by (simp add: upload_file_def S_def)
      next
        case None
        define v where "v = (if K < S
              then (case list_uploaded_parts env pid st2 of
                      (Inl e, st3) \<Rightarrow> (Some e, st3)
                    | (Inr server_parts, st3) \<Rightarrow>
                        (verify_parts server_parts (uploaded_chunks st3), st3))
              else (None, st2))"
        obtain r3 st3 where v: "v = (r3, st3)" by (cases v)
        have rest: "(out, st) =
            (case v of
               (Some e, st3) \<Rightarrow> (Raised e, st3)
             | (None, st3) \<Rightarrow>
                 (case complete_upload env pid st3 of
                    (Inl e, st4) \<Rightarrow> (Raised e, st4)
                  | (Inr (file_id', is_async, is_completed), st4) \<Rightarrow>
                      if is_async then wait_async fuel env pid st4
                      else (Returned file_id', st4)))"
          using run cf Inr quad nr uc None
          by (simp add: upload_file_def S_def v_def)
        show thesis
        proof (cases r3)
          case (Some e)
          then have out: "out = Raised e" "st = st3"
            using rest v by simp_all
          from v Some have "K < S"
            by (auto simp: v_def split: if_splits)
          with v Some out show thesis
            using list_failed [of pid fid K st1 st2 e] verify_failed [of pid fid K st1 st2 _ e]
              cf Inr quad nr uc None
            by (auto simp: v_def split: prod.splits sum.splits)
        next
          case r3: None
          obtain res st4 where cu: "complete_upload env pid st3 = (res, st4)"
            by (cases "complete_upload env pid st3")
          have "if K < S
                then \<exists>server_parts. list_uploaded_parts env pid st2 = (Inr server_parts, st3)
                       \<and> verify_parts server_parts (uploaded_chunks st3) = None
                else st3 = st2"
            using v r3 by (auto simp: v_def split: prod.splits sum.splits if_splits)
          moreover have "case res of
                  Inl e \<Rightarrow> out = Raised e \<and> st = st4
                | Inr (file_id, is_async, is_completed) \<Rightarrow>
                    if is_async then wait_async fuel env pid st4 = (out, st)
                    else out = Returned file_id \<and> st = st4"
            using rest v r3 cu by (auto split: sum.splits prod.splits)
          ultimately show thesis
            using completing [of pid fid K st1 st2 st3 res st4] cf Inr quad nr uc None cu
            by simp
        qed
      qed
    qed
  qed
qed

lemma no_put_events:
  "\<forall>e\<in>set evs. \<not> is_PutChunk (fst e) \<Longrightarrow> put_data evs = [] \<and> put_statuses evs = []"
  by (induction evs rule: put_data.induct) simp_all




lemma upload_file_tail:
  fixes content :: bytes and env :: remote
  defines "S \<equiv> int (length content)"
  assumes run: "upload_file fuel env md5 file_path content parent_id = (out, st)"
      and cf: "create_file env md5 (basename file_path) content parent_id init_state
                 = (Inr (pid, fid, False, K), st1)"
      and K: "K \<noteq> 0"
      and uc: "upload_chunks env md5 content pid K (range_py \<lceil>real_of_int S / real_of_int K\<rceil>)
                 (st1\<lparr>pos := 0, uploaded_chunks := []\<rparr>) = (r2, st2)"
  shows "\<exists>evs. log st = log st2 @ evs \<and> uploaded_chunks st = uploaded_chunks st2
           \<and> (\<forall>e\<in>set evs. fst e \<in> {ListUploadParts pid, UploadComplete pid, UploadAsyncResult pid})
           \<and> (\<forall>e. r2 = Some e \<longrightarrow> evs = [] \<and> out = Raised e)
           \<and> (ListUploadParts pid \<in> fst ` set evs \<longleftrightarrow> r2 = None \<and> K < S)
           \<and> (r2 = None \<and> \<not> K < S \<longrightarrow> UploadComplete pid \<in> fst ` set evs)"
  using run [unfolded S_def]
proof (cases rule: upload_file_cases)
  case (create_failed e)
  with cf show ?thesis by simp
next
  case (reused pid fid K)
  with cf show ?thesis by simp
next
  case (zero_division pid fid)
  with cf K show ?thesis by simp
next
  case (chunk_failed pid' fid' K' st1' e)
  with cf uc show ?thesis by (simp add: S_def)
next
  case (list_failed pid' fid' K' st1' st2' e)
  with cf uc have eq: "r2 = None" "st2' = st2" "pid' = pid" "K' = K"
    by (simp_all add: S_def)
  from list_uploaded_parts_step [OF list_failed(5)] list_failed(4) eq
  show ?thesis
    by (intro exI [of _ "[(ListUploadParts pid, env (log st2) (ListUploadParts pid))]"])
       (simp add: S_def)
next
  case (verify_failed pid' fid' K' st1' st2' server_parts e)
  with cf uc have eq: "r2 = None" "st2' = st2" "pid' = pid" "K' = K"
    by (simp_all add: S_def)
  from list_uploaded_parts_step [OF verify_failed(5)] verify_failed(4) eq
  show ?thesis
    by (intro exI [of _ "[(ListUploadParts pid, env (log st2) (ListUploadParts pid))]"])
       (simp add: S_def)
next
  case (completing pid' fid' K' st1' st2' st3 res st4)
  with cf uc have eq: "r2 = None" "st2' = st2" "pid' = pid" "K' = K"
    by (simp_all add: S_def)
  define vs where "vs = (if K < S then [(ListUploadParts pid, env (log st2) (ListUploadParts pid))] else [])"
  have st3: "log st3 = log st2 @ vs" "uploaded_chunks st3 = uploaded_chunks st2"
    using completing(4) eq list_uploaded_parts_step [of env pid st2 _ st3]
    by (auto simp: vs_def S_def split: if_splits)
  let ?c = "(UploadComplete pid, env (log st3) (UploadComplete pid))"
  have st4: "log st4 = log st3 @ [?c]" "uploaded_chunks st4 = uploaded_chunks st3"
    using complete_upload_step [OF completing(5)] eq by simp_all
  have "\<exists>ws. log st = log st4 @ ws \<and> uploaded_chunks st = uploaded_chunks st4
           \<and> (\<forall>e\<in>set ws. fst e = UploadAsyncResult pid)"
  proof (cases res)
    case (Inl e)
    with completing(6) show ?thesis by simp
  next
    case (Inr triple)
    obtain f a c where "triple = (f, a, c)" by (cases triple)
    with completing(6) Inr eq wait_async_log [of fuel env pid st4 out st]
    show ?thesis by (cases a) auto
  qed
  then obtain ws where ws: "log st = log st4 @ ws" "uploaded_chunks st = uploaded_chunks st4"
    "\<forall>e\<in>set ws. fst e = UploadAsyncResult pid" by blast
  show ?thesis
    using st3 st4 ws eq
    by (intro exI [of _ "vs @ ?c # ws"]) (auto simp: vs_def image_iff)
qed

subsection \<open>Chunks and the ceiling\<close>






lemma range_py_succ: "map (\<lambda>i. i + 1) (range_py n) = map int [1..<Suc (nat n)]"
proof -
  have "map int [1..<Suc (nat n)] = map int (map Suc [0..<nat n])"
    by (simp only: map_Suc_upt One_nat_def)
  also have "\<dots> = map (\<lambda>i. i + 1) (range_py n)"
    by (simp add: range_py_def comp_def)
  finally show ?thesis by simp
qed


lemma upload_chunks_None_statuses:
  "upload_chunks env md5 content pid K idxs st = (None, st') \<Longrightarrow>
     put_statuses (log st') = put_statuses (log st) @ replicate (length idxs) 200"
proof (induction idxs arbitrary: st)
  case Nil
  then show ?case by simp
next
  case (Cons i rest)
  from Cons.prems show ?case
  proof (cases rule: upload_chunks_Cons_cases)
    case (sent url resp)
    from Cons.IH [OF sent(3)] sent(2) show ?thesis
      by (simp add: put_statuses_append replicate_app_Cons_same)
  qed auto
qed

lemma take_range_py: "map (\<lambda>i. i + 1) (take m (range_py n)) = map int [1..<Suc (min m (nat n))]"
proof -
  have "take m [0..<nat n] = [0..<min m (nat n)]"
    by (cases "m \<le> nat n") (simp_all add: min_def)
  then have "take m (range_py n) = range_py (int (min m (nat n)))"
    by (simp add: range_py_def take_map)
  then show ?thesis
    using range_py_succ [of "int (min m (nat n))"] by simp
qed

lemma list_uploaded_parts_success:
  assumes "json (env (log st) (ListUploadParts pid)) = Some (Envelope 0 msg (PartsData ps))"
  shows "fst (list_uploaded_parts env pid st) = Inr ps"
  using assms by (simp add: list_uploaded_parts_def request_def Let_def)

lemma verify_parts_Some:
  "verify_parts server_parts local_parts = Some e \<Longrightarrow> \<exists>n. e = PartVerifyFailed n"
  by (induction local_parts) (auto split: option.splits if_splits)

lemma verify_parts_None:
  "verify_parts server_parts local_parts = None \<Longrightarrow>
     \<forall>l\<in>set local_parts. \<exists>q\<in>set server_parts. partNumber q = partNumber l \<and> etag q = etag l"
proof (induction local_parts)
  case Nil
  then show ?case by simp
next
  case (Cons l rest)
  from Cons.prems obtain q where q: "find (\<lambda>p. partNumber p = partNumber l) server_parts = Some q"
    "etag q = etag l" "verify_parts server_parts rest = None"
    by (auto split: option.splits if_splits)
  from q(1) have "q \<in> set server_parts" "partNumber q = partNumber l"
    by (auto simp: find_Some_iff)
  with q(2) Cons.IH [OF q(3)] show ?case by auto
qed

lemma upload_chunks_None_parts:
  "upload_chunks env md5 content pid K idxs st = (None, st') \<Longrightarrow>
     \<exists>ds. length ds = length idxs \<and> put_data (log st') = put_data (log st) @ ds
        \<and> uploaded_chunks st' = uploaded_chunks st @ map2 (\<lambda>i d. Part (i + 1) (md5 d)) idxs ds"
proof (induction idxs arbitrary: st)
  case Nil
  then show ?case by simp
next
  case (Cons i rest)
  from Cons.prems show ?case
  proof (cases rule: upload_chunks_Cons_cases)
    case (sent url resp)
    let ?chunk = "fst (f_read K content (pos st))"
    from Cons.IH [OF sent(3)] obtain ds where ds: "length ds = length rest"
      "put_data (log st') = put_data (log st) @ ?chunk # ds"
      "uploaded_chunks st' = uploaded_chunks st @ Part (i + 1) (md5 ?chunk) #
          map2 (\<lambda>i d. Part (i + 1) (md5 d)) rest ds"
      by (auto simp: put_data_append)
    then show ?thesis
      by (intro exI [of _ "?chunk # ds"]) simp
  qed auto
qed

lemma no_async_events:
  "\<forall>e\<in>set evs. \<not> is_UploadAsyncResult (fst e) \<Longrightarrow> async_results evs = []"
  by (induction evs rule: async_results.induct) simp_all

lemma check_async_result_success:
  assumes "json (env (log st) (UploadAsyncResult pid)) = Some (Envelope 0 m (AsyncData c g))"
  shows "check_async_result env pid st =
           (Inr (c, g), st\<lparr>log := log st @
              [(UploadAsyncResult pid, env (log st) (UploadAsyncResult pid))]\<rparr>)"
  using assms by (simp add: check_async_result_def request_def Let_def)

lemma upload_file_polling:
  assumes entry: "upload_file 0 env md5 file_path content parent_id = (StillPolling, st)"
  shows "\<exists>pid resp. last (log st) = (UploadComplete pid, resp)
           \<and> async_results (log st) = []
           \<and> (\<forall>fuel. upload_file fuel env md5 file_path content parent_id
                        = wait_async fuel env pid st)"
  using entry
proof (cases rule: upload_file_cases)
  case (completing pid fid K st1 st2 st3 res st4)
  let ?c = "create_call md5 file_path content parent_id"
  from completing(6) obtain file_id c where res: "res = Inr (file_id, True, c)"
    by (cases res) (auto split: if_splits)
  with completing(6) have st: "st = st4" by simp
  have st4: "log st4 = log st3 @ [(UploadComplete pid, env (log st3) (UploadComplete pid))]"
    using complete_upload_step [OF completing(5)] by simp
  from upload_chunks_log [OF completing(3)] create_file_step [OF completing(1)] obtain cvs where
    cvs: "log st2 = (?c, env [] ?c) # cvs"
      "\<forall>e\<in>set cvs. is_GetUploadUrl (fst e) \<or> is_PutChunk (fst e)"
    by (auto simp: init_state_def)
  have st3: "log st3 = log st2 \<or>
      log st3 = log st2 @ [(ListUploadParts pid, env (log st2) (ListUploadParts pid))]"
    using completing(4) list_uploaded_parts_step [of env pid st2 _ st3]
    by (auto split: if_splits)
  have cq: "\<not> is_UploadAsyncResult (fst e)" if "e \<in> set cvs" for e
    using cvs(2) that by (cases "fst e") auto
  have "\<forall>e\<in>set (log st4). \<not> is_UploadAsyncResult (fst e)"
    using st3 st4 cvs(1) cq by auto
  then have quiet: "async_results (log st4) = []"
    by (rule no_async_events)
  have "upload_file fuel env md5 file_path content parent_id = wait_async fuel env pid st4"
    for fuel
  proof (cases "K < int (length content)")
    case True
    with completing(4) obtain sp where
      "list_uploaded_parts env pid st2 = (Inr sp, st3)"
      "verify_parts sp (uploaded_chunks st3) = None"
      by auto
    with completing(1-3,5) res True show ?thesis
      by (simp add: upload_file_def)
  next
    case False
    with completing(4) have "st3 = st2" by simp
    with completing(1-3,5) res False show ?thesis
      by (simp add: upload_file_def)
  qed
  with st st4 quiet show ?thesis by auto
qed simp_all

subsection \<open>Running the examples\<close>

lemmas run_simps = upload_file_def create_file_def get_upload_url_def list_uploaded_parts_def
  complete_upload_def check_async_result_def request_def f_read_def Let_def get_default_def
  init_state_def range_py_def basename_def calculate_file_md5_eq calculate_chunk_md5_def
  friendly_remote_def refusing_put_def listing_parts_def completing_async_def
  ok_json_def http_status_def sample_md5_def
  eval_nat_numeral



section \<open>The claims\<close>

subsection \<open>The create-file answer\<close>

text \<open>
  C1, as the code has it. When create-file answers with success, without
  \<open>reuse = true\<close>, and with no slice size or slice size 0, \<open>upload_file\<close>
  raises: the division \<open>file_size / slice_size\<close> fails with Python's
  ZeroDivisionError (the source has no ProtocolError), and the create-file request is the
  only one made, so no chunk is transferred. The session token is not looked at.
\<close>

theorem no_slice_size_raises:
  assumes "json (env [] (CreateFile parent_id (basename file_path)
                   (calculate_file_md5 md5 content) (int (length content))))
             = Some (Envelope 0 msg (CreateData p f r s))"
      and "r \<noteq> Some True" and "s = None \<or> s = Some 0"
  shows "upload_file fuel env md5 file_path content parent_id =
           (Raised ZeroDivisionError,
            init_state\<lparr>log := [(CreateFile parent_id (basename file_path)
                                    (calculate_file_md5 md5 content) (int (length content)),
                                  env [] (CreateFile parent_id (basename file_path)
                                    (calculate_file_md5 md5 content) (int (length content))))]\<rparr>)"
proof -
  from assms(2) have "get_default r False = False"
    by (cases r) (simp_all add: get_default_def)
  moreover from assms(3) have "get_default s 0 = 0"
    by (auto simp: get_default_def)
  ultimately show ?thesis
    by (simp add: upload_file_def create_file_success [where env = env, OF assms(1)] Let_def)
qed

theorem no_slice_size_raises_witness:
  "upload_file 5 (friendly_remote sample_md5 (CreateData (Some ''pre'') None (Some False) None))
      sample_md5 ''/tmp/a.bin'' [1, 2, 3] 0 =
     (Raised ZeroDivisionError,
      \<lparr>log = [(CreateFile 0 ''a.bin'' ''111'' 3,
                ok_json (CreateData (Some ''pre'') None (Some False) None))],
       pos = 0, uploaded_chunks = []\<rparr>)"
proof -
  have "json (friendly_remote sample_md5 (CreateData (Some ''pre'') None (Some False) None) []
           (CreateFile 0 (basename ''/tmp/a.bin'') (calculate_file_md5 sample_md5 [1, 2, 3])
              (int (length [1, 2, 3 :: byte]))))
        = Some (Envelope 0 ''ok'' (CreateData (Some ''pre'') None (Some False) None))"
    by (simp add: friendly_remote_def ok_json_def)
  from no_slice_size_raises
         [where env = "friendly_remote sample_md5 (CreateData (Some ''pre'') None (Some False) None)"
            and fuel = 5, OF this]
  show ?thesis
    by (simp add: friendly_remote_def init_state_def get_default_def basename_def
          calculate_file_md5_eq sample_md5_def)
qed

text \<open>
  C1 as stated fails: a create-file answer without \<open>preuploadID\<close> and with slice
  size 4 is taken with the default token \<open>''\<close>; the chunk is put and the upload
  returns the file id of complete-upload.
\<close>

theorem missing_session_token_counterexample:
  "fst (upload_file 0 (friendly_remote sample_md5 (CreateData None None (Some False) (Some 4)))
          sample_md5 ''/tmp/a.bin'' [1, 2, 3] 0) = Returned 7
   \<and> map fst (log (snd (upload_file 0
          (friendly_remote sample_md5 (CreateData None None (Some False) (Some 4)))
          sample_md5 ''/tmp/a.bin'' [1, 2, 3] 0))) =
       [CreateFile 0 ''a.bin'' ''111'' 3, GetUploadUrl '''' 1, PutChunk ''url'' [1, 2, 3],
        UploadComplete '''']"
  by code_simp

text \<open>
  C3. When create-file answers \<open>reuse = true\<close>, \<open>upload_file\<close> returns the
  \<open>fileID\<close> of that answer (0 when the answer has none), and the create-file
  request is the only one in the log: no address is asked for, no chunk put, no parts
  listed, no completion asked and no result polled.
\<close>

theorem reuse_returns_create_file_id:
  assumes "json (env [] (CreateFile parent_id (basename file_path)
                   (calculate_file_md5 md5 content) (int (length content))))
             = Some (Envelope 0 msg (CreateData p f (Some True) s))"
  shows "upload_file fuel env md5 file_path content parent_id =
           (Returned (get_default f 0),
            init_state\<lparr>log := [(CreateFile parent_id (basename file_path)
                                    (calculate_file_md5 md5 content) (int (length content)),
                                  env [] (CreateFile parent_id (basename file_path)
                                    (calculate_file_md5 md5 content) (int (length content))))]\<rparr>)"
  by (simp add: upload_file_def create_file_success [where env = env, OF assms] get_default_def)

theorem reuse_returns_create_file_id_witness:
  "upload_file 5 (friendly_remote sample_md5 (CreateData None (Some 99) (Some True) None))
      sample_md5 ''/tmp/a.bin'' [1, 2, 3] 0 =
     (Returned 99,
      \<lparr>log = [(CreateFile 0 ''a.bin'' ''111'' 3,
                ok_json (CreateData None (Some 99) (Some True) None))],
       pos = 0, uploaded_chunks = []\<rparr>)"
proof -
  have "json (friendly_remote sample_md5 (CreateData None (Some 99) (Some True) None) []
           (CreateFile 0 (basename ''/tmp/a.bin'') (calculate_file_md5 sample_md5 [1, 2, 3])
              (int (length [1, 2, 3 :: byte]))))
        = Some (Envelope 0 ''ok'' (CreateData None (Some 99) (Some True) None))"
    by (simp add: friendly_remote_def ok_json_def)
  from reuse_returns_create_file_id
         [where env = "friendly_remote sample_md5 (CreateData None (Some 99) (Some True) None)"
            and fuel = 5, OF this]
  show ?thesis
    by (simp add: friendly_remote_def init_state_def get_default_def basename_def
          calculate_file_md5_eq sample_md5_def)
qed

subsection \<open>Planning the chunks\<close>







subsection \<open>Failures\<close>

text \<open>
  C9. In any upload, if the \<open>k\<close>-th put is answered with a status other than
  200, then \<open>upload_file\<close> raises the chunk-upload error for slice number
  \<open>k\<close>; the chunks recorded at that point are those numbered 1 to \<open>k - 1\<close>,
  one record each; that put is the last one made; and the log has no list-uploaded-parts,
  no complete-upload and no async-result request.
\<close>

theorem refused_put_stops_upload:
  assumes "1 \<le> k" and "k \<le> length (put_statuses (upload_log fuel env md5 file_path content parent_id))"
      and "put_statuses (upload_log fuel env md5 file_path content parent_id) ! (k - 1) \<noteq> 200"
  shows "(\<exists>t. fst (upload_file fuel env md5 file_path content parent_id)
              = Raised (ChunkUploadFailed (int k) t))
       \<and> map partNumber (uploaded_chunks (snd (upload_file fuel env md5 file_path content parent_id)))
           = map int [1..<k]
       \<and> length (put_statuses (upload_log fuel env md5 file_path content parent_id)) = k
       \<and> (\<forall>e\<in>set (upload_log fuel env md5 file_path content parent_id).
             \<not> is_ListUploadParts (fst e) \<and> \<not> is_UploadComplete (fst e)
             \<and> \<not> is_UploadAsyncResult (fst e))"
proof -
  let ?c = "create_call md5 file_path content parent_id"
  obtain out st where run: "upload_file fuel env md5 file_path content parent_id = (out, st)"
    by (cases "upload_file fuel env md5 file_path content parent_id")
  from assms run have k: "1 \<le> k" "k \<le> length (put_statuses (log st))"
    "put_statuses (log st) ! (k - 1) \<noteq> 200"
    by simp_all
  have only_create: False if "st = init_state\<lparr>log := [(?c, env [] ?c)]\<rparr>"
    using k that by (simp add: init_state_def)
  have after_chunks: False
    if cf: "create_file env md5 (basename file_path) content parent_id init_state
              = (Inr (pid, fid, False, K), st1)"
      and K: "K \<noteq> 0"
      and uc: "upload_chunks env md5 content pid K
                 (range_py \<lceil>real_of_int (int (length content)) / real_of_int K\<rceil>)
                 (st1\<lparr>pos := 0, uploaded_chunks := []\<rparr>) = (None, st2)"
    for pid fid K st1 st2
  proof -
    from upload_file_tail [OF run cf K uc] obtain evs where
      lg: "log st = log st2 @ evs"
      and evs: "\<forall>e\<in>set evs. fst e \<in> {ListUploadParts pid, UploadComplete pid, UploadAsyncResult pid}"
      by auto
    from evs have "\<forall>e\<in>set evs. \<not> is_PutChunk (fst e)"
      by fastforce
    then have "put_statuses evs = []"
      using no_put_events by blast
    moreover have "put_statuses (log st2) =
        replicate (length (range_py \<lceil>real_of_int (int (length content)) / real_of_int K\<rceil>)) 200"
      using upload_chunks_None_statuses [OF uc] create_file_step [OF cf]
      by (simp add: init_state_def)
    ultimately have "put_statuses (log st) =
        replicate (length (range_py \<lceil>real_of_int (int (length content)) / real_of_int K\<rceil>)) 200"
      by (simp add: lg put_statuses_append)
    with k show False by simp
  qed
  from run show ?thesis
  proof (cases rule: upload_file_cases)
    case (create_failed e)
    from create_file_step [OF create_failed(1)] only_create show ?thesis by (simp add: init_state_def)
  next
    case (reused pid fid K)
    from create_file_step [OF reused(1)] only_create show ?thesis by (simp add: init_state_def)
  next
    case (zero_division pid fid)
    from create_file_step [OF zero_division(1)] only_create show ?thesis by (simp add: init_state_def)
  next
    case (chunk_failed pid fid K st1 e)
    let ?idxs = "range_py \<lceil>real_of_int (int (length content)) / real_of_int K\<rceil>"
    have st1: "st1 = init_state\<lparr>log := [(?c, env [] ?c)]\<rparr>"
      using create_file_step [OF chunk_failed(1)] by (simp add: init_state_def)
    from upload_chunks_Some [OF chunk_failed(3)] obtain m where m: "m < length ?idxs"
      and parts: "map partNumber (uploaded_chunks st) = map (\<lambda>i. i + 1) (take m ?idxs)"
      and alt: "(\<exists>t c. e = ChunkUploadFailed (?idxs ! m + 1) t \<and> c \<noteq> 200
                   \<and> put_statuses (log st) = replicate m 200 @ [c])
                \<or> ((\<forall>k t. e \<noteq> ChunkUploadFailed k t)
                   \<and> put_statuses (log st) = replicate m 200)"
      by (auto simp: st1 init_state_def)
    from alt k have "\<exists>t c. e = ChunkUploadFailed (?idxs ! m + 1) t \<and> c \<noteq> 200
                   \<and> put_statuses (log st) = replicate m 200 @ [c]"
      by auto
    then obtain t c where e: "e = ChunkUploadFailed (?idxs ! m + 1) t"
      and sts: "put_statuses (log st) = replicate m 200 @ [c]"
      by blast
    have km: "k = Suc m"
    proof (rule ccontr)
      assume "k \<noteq> Suc m"
      with k sts have "k - 1 < m" by simp
      with sts have "put_statuses (log st) ! (k - 1) = 200"
        by (simp add: nth_append)
      with k show False by simp
    qed
    from m have idx: "?idxs ! m = int m"
      by (simp add: range_py_def)
    from m have "min m (nat \<lceil>real_of_int (int (length content)) / real_of_int K\<rceil>) = m"
      by (simp add: range_py_def)
    with parts have parts': "map partNumber (uploaded_chunks st) = map int [1..<k]"
      by (simp only: take_range_py km)
    from upload_chunks_log [OF chunk_failed(3)] obtain cvs where
      "log st = (?c, env [] ?c) # cvs"
      "\<forall>e\<in>set cvs. is_GetUploadUrl (fst e) \<or> is_PutChunk (fst e)"
      by (auto simp: st1 init_state_def)
    then have quiet: "\<forall>e\<in>set (log st). \<not> is_ListUploadParts (fst e)
        \<and> \<not> is_UploadComplete (fst e) \<and> \<not> is_UploadAsyncResult (fst e)"
      by auto
    from e idx km chunk_failed(4) have "out = Raised (ChunkUploadFailed (int k) t)"
      by simp
    with parts' sts km quiet run show ?thesis by simp
  next
    case (list_failed pid fid K st1 st2 e)
    from after_chunks [OF list_failed(1-3)] show ?thesis ..
  next
    case (verify_failed pid fid K st1 st2 server_parts e)
    from after_chunks [OF verify_failed(1-3)] show ?thesis ..
  next
    case (completing pid fid K st1 st2 st3 res st4)
    from after_chunks [OF completing(1-3)] show ?thesis ..
  qed
qed

theorem refused_put_stops_upload_witness:
  "put_statuses (upload_log 0
      (refusing_put 2 (friendly_remote sample_md5
          (CreateData (Some ''pre'') None (Some False) (Some 2))))
      sample_md5 ''/tmp/a.bin'' [1, 2, 3, 4, 5] 0) = [200, 500]
   \<and> (\<exists>t. fst (upload_file 0
      (refusing_put 2 (friendly_remote sample_md5
          (CreateData (Some ''pre'') None (Some False) (Some 2))))
      sample_md5 ''/tmp/a.bin'' [1, 2, 3, 4, 5] 0) = Raised (ChunkUploadFailed 2 t))
   \<and> map partNumber (uploaded_chunks (snd (upload_file 0
      (refusing_put 2 (friendly_remote sample_md5
          (CreateData (Some ''pre'') None (Some False) (Some 2))))
      sample_md5 ''/tmp/a.bin'' [1, 2, 3, 4, 5] 0))) = [1]
   \<and> \<not> (\<exists>e\<in>set (upload_log 0
      (refusing_put 2 (friendly_remote sample_md5
          (CreateData (Some ''pre'') None (Some False) (Some 2))))
      sample_md5 ''/tmp/a.bin'' [1, 2, 3, 4, 5] 0).
         is_ListUploadParts (fst e) \<or> is_UploadComplete (fst e)
         \<or> is_UploadAsyncResult (fst e))"
proof -
  let ?env = "refusing_put 2 (friendly_remote sample_md5
      (CreateData (Some ''pre'') None (Some False) (Some 2)))"
  have sts: "put_statuses (upload_log 0 ?env sample_md5 ''/tmp/a.bin'' [1, 2, 3, 4, 5] 0)
               = [200, 500]"
    by (simp add: run_simps)
  have k: "1 \<le> (2::nat)"
    "2 \<le> length (put_statuses (upload_log 0 ?env sample_md5 ''/tmp/a.bin'' [1, 2, 3, 4, 5] 0))"
    "put_statuses (upload_log 0 ?env sample_md5 ''/tmp/a.bin'' [1, 2, 3, 4, 5] 0) ! (2 - 1) \<noteq> 200"
    by (simp_all add: sts)
  have upt: "[Suc 0..<2] = [Suc 0]"
    by (simp add: eval_nat_numeral)
  from refused_put_stops_upload [OF k] sts show ?thesis
    by (simp add: upt)
qed

text \<open>
  C4. Let an upload have requested the list of uploaded parts and received one. If for
  some chunk it has put, the list has no part with that chunk's number and the digest of
  the bytes put, then \<open>upload_file\<close> raises the part-verification error and the
  log has no complete-upload request. So a run that goes on to complete-upload after a
  listing has found, for each recorded chunk, a listed part with its number and digest.
\<close>

theorem part_verification_rejects_mismatch:
  assumes listed: "(ListUploadParts pid, resp) \<in> set (upload_log fuel env md5 file_path content parent_id)"
      and parts: "json resp = Some (Envelope 0 msg (PartsData server_parts))"
      and i: "i < length (put_data (upload_log fuel env md5 file_path content parent_id))"
      and bad: "\<not> (\<exists>q\<in>set server_parts. partNumber q = int i + 1
                   \<and> etag q = md5 (put_data (upload_log fuel env md5 file_path content parent_id) ! i))"
  shows "(\<exists>n. fst (upload_file fuel env md5 file_path content parent_id) = Raised (PartVerifyFailed n))
       \<and> (\<forall>e\<in>set (upload_log fuel env md5 file_path content parent_id). \<not> is_UploadComplete (fst e))"
proof -
  let ?c = "create_call md5 file_path content parent_id"
  obtain out st where run: "upload_file fuel env md5 file_path content parent_id = (out, st)"
    by (cases "upload_file fuel env md5 file_path content parent_id")
  from listed i bad run have listed': "(ListUploadParts pid, resp) \<in> set (log st)"
    and i': "i < length (put_data (log st))"
    and bad': "\<not> (\<exists>q\<in>set server_parts. partNumber q = int i + 1 \<and> etag q = md5 (put_data (log st) ! i))"
    by simp_all
  have only_create: False if "log st = [(?c, env [] ?c)]"
    using listed' that by simp
  have chunk_log: "\<exists>cvs. log st2 = (?c, env [] ?c) # cvs
        \<and> (\<forall>e\<in>set cvs. is_GetUploadUrl (fst e) \<or> is_PutChunk (fst e))"
    if cf: "create_file env md5 (basename file_path) content parent_id init_state
              = (Inr (pid', fid, False, K), st1)"
      and uc: "upload_chunks env md5 content pid' K idxs
                 (st1\<lparr>pos := 0, uploaded_chunks := []\<rparr>) = (r2, st2)"
    for pid' fid K st1 st2 r2 idxs
    using upload_chunks_log [OF uc] create_file_step [OF cf]
    by (auto simp: init_state_def)
  have not_listed: "(ListUploadParts pid, resp) \<notin> set ((?c, env [] ?c) # cvs)"
    if "\<forall>e\<in>set cvs. is_GetUploadUrl (fst e) \<or> is_PutChunk (fst e)" for cvs
    using that by auto
  from run show ?thesis
  proof (cases rule: upload_file_cases)
    case (create_failed e)
    from create_file_step [OF create_failed(1)] only_create show ?thesis
      by (simp add: init_state_def)
  next
    case (reused pid' fid K)
    from create_file_step [OF reused(1)] only_create show ?thesis
      by (simp add: init_state_def)
  next
    case (zero_division pid' fid)
    from create_file_step [OF zero_division(1)] only_create show ?thesis
      by (simp add: init_state_def)
  next
    case (chunk_failed pid' fid K st1 e)
    from chunk_log [OF chunk_failed(1,3)] not_listed listed' show ?thesis
      by metis
  next
    case (list_failed pid' fid K st1 st2 e)
    from chunk_log [OF list_failed(1,3)] obtain cvs where
      cvs: "log st2 = (?c, env [] ?c) # cvs"
        "\<forall>e\<in>set cvs. is_GetUploadUrl (fst e) \<or> is_PutChunk (fst e)"
      by blast
    have lg: "log st = log st2 @ [(ListUploadParts pid', env (log st2) (ListUploadParts pid'))]"
      using list_uploaded_parts_step [OF list_failed(5)] by simp
    with listed' not_listed [OF cvs(2)] cvs(1)
    have "resp = env (log st2) (ListUploadParts pid')"
      by auto
    with parts list_uploaded_parts_success [of env st2 pid' msg server_parts] list_failed(5)
    show ?thesis by simp
  next
    case (verify_failed pid' fid K st1 st2 sp e)
    from chunk_log [OF verify_failed(1,3)] obtain cvs where
      cvs: "log st2 = (?c, env [] ?c) # cvs"
        "\<forall>e\<in>set cvs. is_GetUploadUrl (fst e) \<or> is_PutChunk (fst e)"
      by blast
    have lg: "log st = log st2 @ [(ListUploadParts pid', env (log st2) (ListUploadParts pid'))]"
      using list_uploaded_parts_step [OF verify_failed(5)] by simp
    from verify_parts_Some [OF verify_failed(6)] verify_failed(7)
    have "\<exists>n. out = Raised (PartVerifyFailed n)" by auto
    moreover from lg cvs have "\<forall>e\<in>set (log st). \<not> is_UploadComplete (fst e)"
      by auto
    ultimately show ?thesis using run by simp
  next
    case (completing pid' fid K st1 st2 st3 res st4)
    from chunk_log [OF completing(1,3)] obtain cvs where
      cvs: "log st2 = (?c, env [] ?c) # cvs"
        "\<forall>e\<in>set cvs. is_GetUploadUrl (fst e) \<or> is_PutChunk (fst e)"
      by blast
    from upload_chunks_None_parts [OF completing(3)] create_file_step [OF completing(1)]
    obtain ds where ds: "put_data (log st2) = ds"
      "uploaded_chunks st2 = map2 (\<lambda>i d. Part (i + 1) (md5 d))
         (range_py \<lceil>real_of_int (int (length content)) / real_of_int K\<rceil>) ds"
      "length ds = length (range_py \<lceil>real_of_int (int (length content)) / real_of_int K\<rceil>)"
      by (auto simp: init_state_def)
    have st4: "log st4 = log st3 @ [(UploadComplete pid', env (log st3) (UploadComplete pid'))]"
      using complete_upload_step [OF completing(5)] by simp
    have "\<exists>ws. log st = log st4 @ ws \<and> (\<forall>e\<in>set ws. fst e = UploadAsyncResult pid')"
    proof (cases res)
      case (Inl e)
      with completing(6) show ?thesis by simp
    next
      case (Inr triple)
      obtain f a c where "triple = (f, a, c)" by (cases triple)
      with completing(6) Inr wait_async_log [of fuel env pid' st4 out st]
      show ?thesis by (cases a) auto
    qed
    then obtain ws where ws: "log st = log st4 @ ws" "\<forall>e\<in>set ws. fst e = UploadAsyncResult pid'"
      by blast
    from ws(2) have ws_quiet: "put_data ws = []" "(ListUploadParts pid, resp) \<notin> set ws"
      using no_put_events [of ws] by fastforce+
    show ?thesis
    proof (cases "K < int (length content)")
      case False
      with completing(4) have "st3 = st2" by simp
      with listed' ws st4 ws_quiet not_listed [OF cvs(2)] cvs(1) show ?thesis
        by auto
    next
      case True
      with completing(4) obtain sp where
        lp: "list_uploaded_parts env pid' st2 = (Inr sp, st3)"
        and vp: "verify_parts sp (uploaded_chunks st3) = None"
        by auto
      have st3: "st3 = st2\<lparr>log := log st2 @
          [(ListUploadParts pid', env (log st2) (ListUploadParts pid'))]\<rparr>"
        by (rule list_uploaded_parts_step [OF lp])
      with listed' ws st4 ws_quiet not_listed [OF cvs(2)] cvs(1)
      have "resp = env (log st2) (ListUploadParts pid')"
        by auto
      with parts list_uploaded_parts_success [of env st2 pid' msg server_parts] lp
      have sp: "sp = server_parts" by simp
      have data: "put_data (log st) = ds"
        using ws st4 st3 ws_quiet ds(1) by (simp add: put_data_append)
      with i' ds(3) have il: "i < length ds"
        "i < length (range_py \<lceil>real_of_int (int (length content)) / real_of_int K\<rceil>)"
        by simp_all
      then have "range_py \<lceil>real_of_int (int (length content)) / real_of_int K\<rceil> ! i = int i"
        by (simp add: range_py_def)
      with il ds(2) have "uploaded_chunks st2 ! i = Part (int i + 1) (md5 (ds ! i))"
        "i < length (uploaded_chunks st2)"
        by simp_all
      then have "Part (int i + 1) (md5 (ds ! i)) \<in> set (uploaded_chunks st2)"
        by (metis nth_mem)
      with verify_parts_None [OF vp] st3 sp
      have "\<exists>q\<in>set server_parts. partNumber q = int i + 1 \<and> etag q = md5 (ds ! i)"
        by fastforce
      with bad' data show ?thesis by simp
    qed
  qed
qed

theorem part_verification_rejects_mismatch_witness:
  "(ListUploadParts ''pre'', ok_json (PartsData [Part 1 ''11'', Part 2 ''0'']))
     \<in> set (upload_log 0
         (listing_parts [Part 1 ''11'', Part 2 ''0'']
            (friendly_remote sample_md5 (CreateData (Some ''pre'') None (Some False) (Some 2))))
         sample_md5 ''/tmp/a.bin'' [1, 2, 3] 0)
   \<and> put_data (upload_log 0
         (listing_parts [Part 1 ''11'', Part 2 ''0'']
            (friendly_remote sample_md5 (CreateData (Some ''pre'') None (Some False) (Some 2))))
         sample_md5 ''/tmp/a.bin'' [1, 2, 3] 0) = [[1, 2], [3]]
   \<and> sample_md5 [3] = ''1''
   \<and> (\<exists>n. fst (upload_file 0
         (listing_parts [Part 1 ''11'', Part 2 ''0'']
            (friendly_remote sample_md5 (CreateData (Some ''pre'') None (Some False) (Some 2))))
         sample_md5 ''/tmp/a.bin'' [1, 2, 3] 0) = Raised (PartVerifyFailed n))
   \<and> \<not> (\<exists>e\<in>set (upload_log 0
         (listing_parts [Part 1 ''11'', Part 2 ''0'']
            (friendly_remote sample_md5 (CreateData (Some ''pre'') None (Some False) (Some 2))))
         sample_md5 ''/tmp/a.bin'' [1, 2, 3] 0). is_UploadComplete (fst e))"
proof -
  let ?env = "listing_parts [Part 1 ''11'', Part 2 ''0'']
     (friendly_remote sample_md5 (CreateData (Some ''pre'') None (Some False) (Some 2)))"
  let ?lg = "upload_log 0 ?env sample_md5 ''/tmp/a.bin'' [1, 2, 3] 0"
  have listed: "(ListUploadParts ''pre'', ok_json (PartsData [Part 1 ''11'', Part 2 ''0''])) \<in> set ?lg"
    by (simp add: run_simps)
  have parts: "json (ok_json (PartsData [Part 1 ''11'', Part 2 ''0'']))
      = Some (Envelope 0 ''ok'' (PartsData [Part 1 ''11'', Part 2 ''0'']))"
    by (simp add: ok_json_def)
  have data: "put_data ?lg = [[1, 2], [3]]"
    by (simp add: run_simps)
  have digest: "sample_md5 [3] = ''1''"
    by (simp add: sample_md5_def)
  have i: "1 < length (put_data ?lg)"
    by (simp add: data)
  have bad: "\<not> (\<exists>q\<in>set [Part 1 ''11'', Part 2 ''0'']. partNumber q = int 1 + 1
                 \<and> etag q = sample_md5 (put_data ?lg ! 1))"
    by (simp add: data digest)
  from part_verification_rejects_mismatch [OF listed parts i bad] listed data digest
  show ?thesis by blast
qed

subsection \<open>Completion\<close>

text \<open>
  C6. Let the upload have reached its polling loop (observed after no poll, it is still
  polling), the last request before it being complete-upload, answered
  \<open>async = true, completed = false\<close>. If the remote answers the first two
  async-result requests \<open>completed = false\<close> and the third \<open>completed = true\<close>
  with file id 42, then the upload, followed for three polls or more, returns 42, and its
  log has exactly these three async-result requests.
\<close>

theorem async_completion_after_three_polls:
  assumes entry: "upload_file 0 env md5 file_path content parent_id = (StillPolling, st)"
      and complete: "last (log st) = (UploadComplete pid, resp)"
        "json resp = Some (Envelope 0 m (CompleteData f True False))"
      and poll1: "r1 = env (log st) (UploadAsyncResult pid)"
        "json r1 = Some (Envelope 0 m1 (AsyncData False g1))"
      and poll2: "r2 = env (log st @ [(UploadAsyncResult pid, r1)]) (UploadAsyncResult pid)"
        "json r2 = Some (Envelope 0 m2 (AsyncData False g2))"
      and poll3: "r3 = env (log st @ [(UploadAsyncResult pid, r1), (UploadAsyncResult pid, r2)])
                       (UploadAsyncResult pid)"
        "json r3 = Some (Envelope 0 m3 (AsyncData True 42))"
      and fuel: "3 \<le> fuel"
  shows "fst (upload_file fuel env md5 file_path content parent_id) = Returned 42
       \<and> async_results (upload_log fuel env md5 file_path content parent_id) = [r1, r2, r3]
       \<and> length (async_results (upload_log fuel env md5 file_path content parent_id)) = 3"
proof -
  from upload_file_polling [OF entry] complete(1)
  have quiet: "async_results (log st) = []"
    and loop: "upload_file fuel env md5 file_path content parent_id = wait_async fuel env pid st"
    by auto
  from fuel obtain n where n: "fuel = Suc (Suc (Suc n))"
    by (metis Suc_le_D numeral_3_eq_3 Suc_le_mono)
  let ?e1 = "(UploadAsyncResult pid, r1)"
  let ?e2 = "(UploadAsyncResult pid, r2)"
  let ?e3 = "(UploadAsyncResult pid, r3)"
  let ?st1 = "st\<lparr>log := log st @ [?e1]\<rparr>"
  let ?st2 = "st\<lparr>log := log st @ [?e1, ?e2]\<rparr>"
  let ?st3 = "st\<lparr>log := log st @ [?e1, ?e2, ?e3]\<rparr>"
  have c1: "check_async_result env pid st = (Inr (False, g1), ?st1)"
    using check_async_result_success [of env st pid m1 False g1] poll1 by simp
  have c2: "check_async_result env pid ?st1 = (Inr (False, g2), ?st2)"
    using check_async_result_success [of env ?st1 pid m2 False g2] poll2 by simp
  have c3: "check_async_result env pid ?st2 = (Inr (True, 42), ?st3)"
    using check_async_result_success [of env ?st2 pid m3 True 42] poll3 by simp
  have "wait_async fuel env pid st = (Returned 42, ?st3)"
    by (simp add: n c1 c2 c3)
  with loop quiet show ?thesis
    by (simp add: async_results_append)
qed

theorem async_completion_after_three_polls_witness:
  "fst (upload_file 0
      (completing_async 3 42 (friendly_remote sample_md5
          (CreateData (Some ''pre'') None (Some False) (Some 2))))
      sample_md5 ''/tmp/a.bin'' [1, 2, 3] 0) = StillPolling
   \<and> fst (upload_file 5
      (completing_async 3 42 (friendly_remote sample_md5
          (CreateData (Some ''pre'') None (Some False) (Some 2))))
      sample_md5 ''/tmp/a.bin'' [1, 2, 3] 0) = Returned 42
   \<and> length (async_results (upload_log 5
      (completing_async 3 42 (friendly_remote sample_md5
          (CreateData (Some ''pre'') None (Some False) (Some 2))))
      sample_md5 ''/tmp/a.bin'' [1, 2, 3] 0)) = 3"
proof -
  let ?env = "completing_async 3 42 (friendly_remote sample_md5
      (CreateData (Some ''pre'') None (Some False) (Some 2)))"
  let ?st = "snd (upload_file 0 ?env sample_md5 ''/tmp/a.bin'' [1, 2, 3] 0)"
  let ?poll = "UploadAsyncResult ''pre''"
  let ?r1 = "?env (log ?st) ?poll"
  let ?r2 = "?env (log ?st @ [(?poll, ?r1)]) ?poll"
  let ?r3 = "?env (log ?st @ [(?poll, ?r1), (?poll, ?r2)]) ?poll"
  have still: "fst (upload_file 0 ?env sample_md5 ''/tmp/a.bin'' [1, 2, 3] 0) = StillPolling"
    by (simp add: run_simps)
  then have entry: "upload_file 0 ?env sample_md5 ''/tmp/a.bin'' [1, 2, 3] 0 = (StillPolling, ?st)"
    by (simp add: prod_eq_iff)
  have complete: "last (log ?st) = (UploadComplete ''pre'', ok_json (CompleteData None True False))"
    "json (ok_json (CompleteData None True False))
       = Some (Envelope 0 ''ok'' (CompleteData None True False))"
    by (simp_all add: run_simps)
  have none: "async_results (log ?st) = []"
    by (simp add: run_simps)
  have p1: "json ?r1 = Some (Envelope 0 ''ok'' (AsyncData False 0))"
    by (simp add: completing_async_def ok_json_def none)
  have p2: "json ?r2 = Some (Envelope 0 ''ok'' (AsyncData False 0))"
    by (simp add: completing_async_def ok_json_def none async_results_append)
  have p3: "json ?r3 = Some (Envelope 0 ''ok'' (AsyncData True 42))"
    by (simp add: completing_async_def ok_json_def none async_results_append)
  have fuel: "3 \<le> (5::nat)"
    by simp
  from async_completion_after_three_polls
         [OF entry complete refl p1 refl p2 refl p3 fuel] still
  show ?thesis by simp
qed

text \<open>
  C10. Let create-file answer with success and without \<open>reuse = true\<close>, and let
  the upload return a file id. Then complete-upload was requested and answered with
  success. If that answer says \<open>async = false\<close>, the id returned is its
  \<open>fileID\<close> (0 when it has none) and no result was polled. Otherwise the id
  returned is the \<open>fileID\<close> of the last async-result answer, which says
  \<open>completed = true\<close>, every answer before it saying \<open>completed = false\<close>.
  The \<open>fileID\<close> of the create-file answer takes no part in it.
\<close>

theorem returned_id_from_completion:
  assumes create: "json (env [] (create_call md5 file_path content parent_id))
                     = Some (Envelope 0 msg (CreateData p f r s))"
      and nonreuse: "r \<noteq> Some True"
      and returned: "fst (upload_file fuel env md5 file_path content parent_id) = Returned fid"
  shows "\<exists>resp msg' f' a c.
           (UploadComplete (get_default p ''''), resp)
              \<in> set (upload_log fuel env md5 file_path content parent_id)
         \<and> json resp = Some (Envelope 0 msg' (CompleteData f' a c))
         \<and> (if a
            then \<exists>rs r' msg''.
                   async_results (upload_log fuel env md5 file_path content parent_id) = rs @ [r']
                 \<and> json r' = Some (Envelope 0 msg'' (AsyncData True fid))
                 \<and> (\<forall>x\<in>set rs. \<exists>m g. json x = Some (Envelope 0 m (AsyncData False g)))
            else fid = get_default f' 0
                 \<and> async_results (upload_log fuel env md5 file_path content parent_id) = [])"
proof -
  let ?c = "create_call md5 file_path content parent_id"
  let ?pid = "get_default p ''''"
  from nonreuse have nr: "get_default r False = False"
    by (cases r) (simp_all add: get_default_def)
  have cf: "create_file env md5 (basename file_path) content parent_id init_state
              = (Inr (?pid, get_default f 0, False, get_default s 0),
                 init_state\<lparr>log := [(?c, env [] ?c)]\<rparr>)"
    using create_file_success [where env = env, OF create] nr by simp
  obtain out st where run: "upload_file fuel env md5 file_path content parent_id = (out, st)"
    by (cases "upload_file fuel env md5 file_path content parent_id")
  with returned have out: "out = Returned fid" by simp
  from run show ?thesis
  proof (cases rule: upload_file_cases)
    case (completing pid' fid' K st1 st2 st3 res st4)
    with cf have pid': "pid' = ?pid" and st1: "st1 = init_state\<lparr>log := [(?c, env [] ?c)]\<rparr>"
      by simp_all
    from upload_chunks_log [OF completing(3)] st1 obtain cvs where
      cvs: "log st2 = (?c, env [] ?c) # cvs"
        "\<forall>e\<in>set cvs. is_GetUploadUrl (fst e) \<or> is_PutChunk (fst e)"
      by (auto simp: init_state_def)
    have st3: "log st3 = log st2 \<or>
        log st3 = log st2 @ [(ListUploadParts ?pid, env (log st2) (ListUploadParts ?pid))]"
      using completing(4) list_uploaded_parts_step [of env ?pid st2 _ st3] pid'
      by (auto split: if_splits)
    let ?resp = "env (log st3) (UploadComplete ?pid)"
    have st4: "log st4 = log st3 @ [(UploadComplete ?pid, ?resp)]"
      using complete_upload_step [OF completing(5)] pid' by simp
    have cq: "\<not> is_UploadAsyncResult (fst e)" if "e \<in> set cvs" for e
      using cvs(2) that by (cases "fst e") auto
    have "\<forall>e\<in>set (log st4). \<not> is_UploadAsyncResult (fst e)"
      using st3 st4 cvs(1) cq by auto
    then have quiet: "async_results (log st4) = []"
      by (rule no_async_events)
    from completing(6) out obtain file_id a c where res: "res = Inr (file_id, a, c)"
      by (cases res) auto
    from complete_upload_Inr [OF completing(5) [unfolded res]] pid'
    obtain msg' f' where resp: "json ?resp = Some (Envelope 0 msg' (CompleteData f' a c))"
      "file_id = get_default f' 0"
      by auto
    show ?thesis
    proof (cases a)
      case False
      with completing(6) res out have "fid = file_id" "st = st4" by simp_all
      with resp quiet st4 False run show ?thesis
        by (intro exI [of _ ?resp] exI [of _ msg'] exI [of _ f'] exI [of _ a] exI [of _ c]) simp
    next
      case True
      with completing(6) res out pid' have wa: "wait_async fuel env ?pid st4 = (Returned fid, st)"
        by simp
      from wait_async_log [OF wa] have "set (log st4) \<subseteq> set (log st)"
        by auto
      with st4 have mem: "(UploadComplete ?pid, ?resp) \<in> set (log st)"
        by auto
      from wait_async_Returned [OF wa] quiet obtain rs r' msg'' where
        "async_results (log st) = rs @ [r']"
        "json r' = Some (Envelope 0 msg'' (AsyncData True fid))"
        "\<forall>x\<in>set rs. \<exists>m g. json x = Some (Envelope 0 m (AsyncData False g))"
        by auto
      with resp mem True run show ?thesis
        by (intro exI [of _ ?resp] exI [of _ msg'] exI [of _ f'] exI [of _ a] exI [of _ c])
           auto
    qed
  qed (use cf out in auto)
qed

theorem returned_id_from_completion_witness:
  "fst (upload_file 0
      (friendly_remote sample_md5 (CreateData (Some ''pre'') (Some 5) (Some False) (Some 2)))
      sample_md5 ''/tmp/a.bin'' [1, 2, 3] 0) = Returned 7
   \<and> (\<exists>resp msg' f'.
         (UploadComplete ''pre'', resp) \<in> set (upload_log 0
            (friendly_remote sample_md5 (CreateData (Some ''pre'') (Some 5) (Some False) (Some 2)))
            sample_md5 ''/tmp/a.bin'' [1, 2, 3] 0)
       \<and> json resp = Some (Envelope 0 msg' (CompleteData f' False True))
       \<and> 7 = get_default f' 0)
   \<and> fst (upload_file 5
      (completing_async 3 42 (friendly_remote sample_md5
          (CreateData (Some ''pre'') (Some 5) (Some False) (Some 2))))
      sample_md5 ''/tmp/a.bin'' [1, 2, 3] 0) = Returned 42
   \<and> (\<exists>rs r' msg''.
         async_results (upload_log 5
            (completing_async 3 42 (friendly_remote sample_md5
                (CreateData (Some ''pre'') (Some 5) (Some False) (Some 2))))
            sample_md5 ''/tmp/a.bin'' [1, 2, 3] 0) = rs @ [r']
       \<and> json r' = Some (Envelope 0 msg'' (AsyncData True 42))
       \<and> (\<forall>x\<in>set rs. \<exists>m g. json x = Some (Envelope 0 m (AsyncData False g))))"
proof -
  let ?direct = "friendly_remote sample_md5 (CreateData (Some ''pre'') (Some 5) (Some False) (Some 2))"
  let ?deferred = "completing_async 3 42 ?direct"
  have create: "json (?direct [] (create_call sample_md5 ''/tmp/a.bin'' [1, 2, 3] 0))
        = Some (Envelope 0 ''ok'' (CreateData (Some ''pre'') (Some 5) (Some False) (Some 2)))"
    "json (?deferred [] (create_call sample_md5 ''/tmp/a.bin'' [1, 2, 3] 0))
        = Some (Envelope 0 ''ok'' (CreateData (Some ''pre'') (Some 5) (Some False) (Some 2)))"
    by (simp_all add: friendly_remote_def completing_async_def ok_json_def)
  have r: "Some False \<noteq> Some True"
    by simp
  have direct: "fst (upload_file 0 ?direct sample_md5 ''/tmp/a.bin'' [1, 2, 3] 0) = Returned 7"
    by (simp add: run_simps)
  have sync: "(UploadComplete ''pre'', resp) \<in> set (upload_log 0 ?direct sample_md5 ''/tmp/a.bin'' [1, 2, 3] 0)
      \<Longrightarrow> json resp = Some (Envelope 0 msg' (CompleteData f' a c)) \<Longrightarrow> \<not> a \<and> c"
    for resp msg' f' a c
    by (auto simp: run_simps)
  have deferred: "fst (upload_file 5 ?deferred sample_md5 ''/tmp/a.bin'' [1, 2, 3] 0) = Returned 42"
    by (simp add: run_simps)
  have async: "(UploadComplete ''pre'', resp) \<in> set (upload_log 5 ?deferred sample_md5 ''/tmp/a.bin'' [1, 2, 3] 0)
      \<Longrightarrow> json resp = Some (Envelope 0 msg' (CompleteData f' a c)) \<Longrightarrow> a"
    for resp msg' f' a c
    by (auto simp: run_simps)
  have pid: "get_default (Some ''pre'') [] = ''pre''"
    by (simp add: get_default_def)
  from returned_id_from_completion [where env = ?direct and fuel = 0, OF create(1) r direct]
  obtain resp msg' f' a c where
    d1: "(UploadComplete ''pre'', resp)
           \<in> set (upload_log 0 ?direct sample_md5 ''/tmp/a.bin'' [1, 2, 3] 0)"
    and d2: "json resp = Some (Envelope 0 msg' (CompleteData f' a c))"
    and d3: "if a
            then \<exists>rs r' msg''.
                   async_results (upload_log 0 ?direct sample_md5 ''/tmp/a.bin'' [1, 2, 3] 0) = rs @ [r']
                 \<and> json r' = Some (Envelope 0 msg'' (AsyncData True 7))
                 \<and> (\<forall>x\<in>set rs. \<exists>m g. json x = Some (Envelope 0 m (AsyncData False g)))
            else 7 = get_default f' 0
                 \<and> async_results (upload_log 0 ?direct sample_md5 ''/tmp/a.bin'' [1, 2, 3] 0) = []"
    unfolding pid by blast
  from sync [OF d1 d2] have "\<not> a" "c" by simp_all
  with d1 d2 d3 have one: "\<exists>resp msg' f'.
         (UploadComplete ''pre'', resp) \<in> set (upload_log 0 ?direct sample_md5 ''/tmp/a.bin'' [1, 2, 3] 0)
       \<and> json resp = Some (Envelope 0 msg' (CompleteData f' False True))
       \<and> 7 = get_default f' 0"
    by auto
  from returned_id_from_completion [where env = ?deferred and fuel = 5, OF create(2) r deferred]
  obtain resp msg' f' a c where
    a1: "(UploadComplete ''pre'', resp)
           \<in> set (upload_log 5 ?deferred sample_md5 ''/tmp/a.bin'' [1, 2, 3] 0)"
    and a2: "json resp = Some (Envelope 0 msg' (CompleteData f' a c))"
    and a3: "if a
            then \<exists>rs r' msg''.
                   async_results (upload_log 5 ?deferred sample_md5 ''/tmp/a.bin'' [1, 2, 3] 0) = rs @ [r']
                 \<and> json r' = Some (Envelope 0 msg'' (AsyncData True 42))
                 \<and> (\<forall>x\<in>set rs. \<exists>m g. json x = Some (Envelope 0 m (AsyncData False g)))
            else 42 = get_default f' 0
                 \<and> async_results (upload_log 5 ?deferred sample_md5 ''/tmp/a.bin'' [1, 2, 3] 0) = []"
    unfolding pid by blast
  from async [OF a1 a2] a3 have two: "\<exists>rs r' msg''.
         async_results (upload_log 5 ?deferred sample_md5 ''/tmp/a.bin'' [1, 2, 3] 0) = rs @ [r']
       \<and> json r' = Some (Envelope 0 msg'' (AsyncData True 42))
       \<and> (\<forall>x\<in>set rs. \<exists>m g. json x = Some (Envelope 0 m (AsyncData False g)))"
    by simp
  from direct one deferred two show ?thesis by blast
qed

subsection \<open>Digests\<close>

text \<open>
  C8. The digest of the file, fed to the hash object in windows of at most 4096 bytes
  read one after the other until \<open>f.read\<close> returns nothing, is the digest of the
  whole content taken at once, which is what \<open>calculate_chunk_md5\<close> computes;
  so it depends on the bytes only.
\<close>

theorem file_md5_is_md5_of_content:
  "calculate_file_md5 md5 content = md5 content
   \<and> calculate_file_md5 md5 content = calculate_chunk_md5 md5 content"
  by (simp add: calculate_file_md5_def calculate_chunk_md5_def md5_update_loop_eq)

end
